theory Spec2Isabelle
  imports
    Complex_Main
    "HOL-Library.AList"
    "HOL-Library.Char_ord"
    "HOL-Library.List_Lexorder"
    "HOL-Library.Product_Lexorder"
begin

section \<open>Data model of \<^verbatim>\<open>gtdbtk/ani_rep.py\<close>\<close>

text \<open>
  Python values as they appear in the module:
  \<^item> a \<^verbatim>\<open>str\<close> is a \<open>string\<close>; its characters are the code points below 256, and the
    order on strings is the lexicographic order on code points (Python's \<^verbatim>\<open><\<close> on \<^verbatim>\<open>str\<close>);
  \<^item> a \<^verbatim>\<open>dict\<close> that is iterated is an association list in insertion order with pairwise
    distinct keys; \<^verbatim>\<open>d[k] = v\<close> is \<open>AList.update k v d\<close> (an existing key keeps its place, a
    new key goes last) and \<^verbatim>\<open>k in d\<close> is \<open>map_of d k \<noteq> None\<close>;
  \<^item> a \<^verbatim>\<open>dict\<close> that is only looked up (the taxonomy, the radii) is a map;
  \<^item> a \<^verbatim>\<open>float\<close> is a real number (no NaN occurs among the values FastANI reports);
  \<^item> an exception is the left summand of the result.
\<close>

datatype py_error = ValueError | UnboundLocalError | KeyError

type_synonym 'v dict = "(string \<times> 'v) list"

text \<open>One FastANI hit, \<^verbatim>\<open>{'ani': ..., 'af': ...}\<close>.\<close>

record hit =
  ani :: real
  af :: real

text \<open>\<^verbatim>\<open>dict[str, dict[str, dict[str, float]]]\<close>: query id, reference id, hit.\<close>

type_synonym fastani_results = "hit dict dict"

text \<open>A value interpolated into a written line; the line is its values, separated by tabs.\<close>

datatype field = Text string | Float real | Flag bool

type_synonym row = "field list"

section \<open>String and path helpers of the Python library\<close>

text \<open>\<^verbatim>\<open>str.isspace\<close> on one character (code points below 256).\<close>

definition isspace :: "char \<Rightarrow> bool" where
  "isspace c =
     (let n = (of_char c :: nat)
      in (9 \<le> n \<and> n \<le> 13) \<or> (28 \<le> n \<and> n \<le> 32) \<or> n = 133 \<or> n = 160)"

text \<open>\<^verbatim>\<open>str.strip()\<close>: whitespace removed at both ends.\<close>

definition py_strip :: "string \<Rightarrow> string" where
  "py_strip s = rev (dropWhile isspace (rev (dropWhile isspace s)))"

text \<open>
  \<^verbatim>\<open>str.split()\<close> with no separator: the maximal runs of characters that are not whitespace.
  \<open>cur\<close> is the token being read.
\<close>

fun tokens :: "string \<Rightarrow> string \<Rightarrow> string list" where
  "tokens cur [] = (if cur = [] then [] else [cur])"
| "tokens cur (c # cs) =
     (if isspace c then (if cur = [] then tokens [] cs else cur # tokens [] cs)
      else tokens (cur @ [c]) cs)"

definition py_split :: "string \<Rightarrow> string list" where
  "py_split s = tokens [] s"

text \<open>\<^verbatim>\<open>s.endswith(suffix)\<close>.\<close>

definition endswith :: "string \<Rightarrow> string \<Rightarrow> bool" where
  "endswith s suffix =
     (length suffix \<le> length s \<and> drop (length s - length suffix) s = suffix)"

text \<open>
  The part of \<open>s\<close> before the first occurrence of a non-empty \<open>sep\<close> (all of \<open>s\<close> when there
  is none): element 0 of \<^verbatim>\<open>s.split(sep)\<close>.
\<close>

fun before_first :: "string \<Rightarrow> string \<Rightarrow> string" where
  "before_first sep [] = []"
| "before_first sep (c # cs) =
     (if take (length sep) (c # cs) = sep then [] else c # before_first sep cs)"

text \<open>\<^verbatim>\<open>s.split(sep)[0]\<close>; an empty separator raises \<^verbatim>\<open>ValueError\<close>.\<close>

definition split_first :: "string \<Rightarrow> string \<Rightarrow> py_error + string" where
  "split_first s sep = (if sep = [] then Inl ValueError else Inr (before_first sep s))"

text \<open>
  \<^verbatim>\<open>os.path.join(a, *p)\<close> of \<^verbatim>\<open>posixpath\<close>: a component that starts with the separator
  replaces what was joined so far; otherwise it is appended, after a separator unless the
  path so far is empty or ends with one.
\<close>

definition join_step :: "string \<Rightarrow> string \<Rightarrow> string" where
  "join_step path b =
     (if take 1 b = ''/'' then b
      else if path = [] \<or> endswith path ''/'' then path @ b
      else path @ ''/'' @ b)"

definition os_path_join :: "string \<Rightarrow> string list \<Rightarrow> string" where
  "os_path_join a p = foldl join_step a p"

text \<open>\<^verbatim>\<open>sep.join(xs)\<close>.\<close>

fun py_join :: "string \<Rightarrow> string list \<Rightarrow> string" where
  "py_join sep [] = []"
| "py_join sep [x] = x"
| "py_join sep (x # y # ys) = x @ sep @ py_join sep (y # ys)"

section \<open>\<^verbatim>\<open>ANIRep._get_ref_genomes\<close>\<close>

text \<open>
  The state of the loop over the manifest's lines: the local variable \<^verbatim>\<open>accession\<close>
  (\<open>None\<close> while it is unbound) and the dictionary \<^verbatim>\<open>ref_genomes\<close>.
  \<open>ext\<close> is \<^verbatim>\<open>FASTANI_GENOMES_EXT\<close> and \<open>dir\<close> is \<^verbatim>\<open>FASTANI_DIR\<close>, constants of the
  configuration module.
\<close>

type_synonym ref_state = "string option \<times> string dict"

text \<open>
  One iteration. The tuple assignment raises \<^verbatim>\<open>ValueError\<close> unless the line has exactly two
  tokens; the first token is \<^verbatim>\<open>full_name\<close>, the second \<^verbatim>\<open>path\<close>. Reading \<^verbatim>\<open>accession\<close>
  while it is unbound raises \<^verbatim>\<open>UnboundLocalError\<close>.
\<close>

definition ref_genomes_step :: "string \<Rightarrow> string \<Rightarrow> ref_state \<Rightarrow> string \<Rightarrow> py_error + ref_state" where
  "ref_genomes_step ext dir st line =
     (case py_split (py_strip line) of
        [full_name, path] \<Rightarrow>
          (case (if endswith full_name ext
                 then map_sum id Some (split_first full_name ext)
                 else Inr (fst st)) of
             Inl e \<Rightarrow> Inl e
           | Inr None \<Rightarrow> Inl UnboundLocalError
           | Inr (Some accession) \<Rightarrow>
               Inr (Some accession,
                    AList.update accession (os_path_join dir [path, full_name]) (snd st)))
      | _ \<Rightarrow> Inl ValueError)"

fun ref_genomes_loop :: "string \<Rightarrow> string \<Rightarrow> ref_state \<Rightarrow> string list \<Rightarrow> py_error + ref_state" where
  "ref_genomes_loop ext dir st [] = Inr st"
| "ref_genomes_loop ext dir st (line # g_path_file) =
     (case ref_genomes_step ext dir st line of
        Inl e \<Rightarrow> Inl e
      | Inr st' \<Rightarrow> ref_genomes_loop ext dir st' g_path_file)"

text \<open>The whole function, on the lines of \<^verbatim>\<open>FASTANI_GENOME_LIST\<close>.\<close>

definition get_ref_genomes :: "string \<Rightarrow> string \<Rightarrow> string list \<Rightarrow> py_error + string dict" where
  "get_ref_genomes ext dir g_path_file =
     map_sum id snd (ref_genomes_loop ext dir (None, []) g_path_file)"

section \<open>\<^verbatim>\<open>ANIRep.run\<close>: the path lookup and the comparison sets\<close>

text \<open>A dictionary built by storing the items one after the other.\<close>

definition dict_of_items :: "(string \<times> 'v) list \<Rightarrow> 'v dict" where
  "dict_of_items items = foldl (\<lambda>d kv. AList.update (fst kv) (snd kv) d) [] items"

text \<open>\<^verbatim>\<open>d_paths = {**genomes, **ref_genomes}\<close>.\<close>

definition d_paths :: "string dict \<Rightarrow> string dict \<Rightarrow> string dict" where
  "d_paths genomes ref_genomes = dict_of_items (genomes @ ref_genomes)"

text \<open>
  \<^verbatim>\<open>d_compare[qry_gid]\<close> on the \<^verbatim>\<open>defaultdict(set)\<close>: a missing key reads as the empty set.
\<close>

definition defaultdict_get :: "string set dict \<Rightarrow> string \<Rightarrow> string set" where
  "defaultdict_get d k = (case map_of d k of None \<Rightarrow> {} | Some s \<Rightarrow> s)"

text \<open>
  The loop over \<^verbatim>\<open>mash_results.items()\<close>; \<open>mash_results\<close> is what \<^verbatim>\<open>Mash.run\<close> returned, per
  query the dictionary of its candidate references.
\<close>

definition mash_step :: "string set dict \<Rightarrow> string \<times> 'm dict \<Rightarrow> string set dict" where
  "mash_step d_compare item =
     AList.update (fst item)
       (defaultdict_get d_compare (fst item) \<union> set (map fst (snd item))) d_compare"

definition build_d_compare ::
  "bool \<Rightarrow> string dict \<Rightarrow> string dict \<Rightarrow> 'm dict dict \<Rightarrow> string set dict" where
  "build_d_compare no_mash genomes ref_genomes mash_results =
     (if \<not> no_mash then foldl mash_step [] mash_results
      else foldl (\<lambda>d qry_gid. AList.update qry_gid (set (map fst ref_genomes)) d) []
             (map fst genomes))"

section \<open>The report writers\<close>

text \<open>
  \<^verbatim>\<open>canonical_gid\<close> (of \<^verbatim>\<open>biolib_lite.common\<close>) and \<^verbatim>\<open>AF_THRESHOLD\<close> (of the configuration
  module) are parameters. The taxonomy is the dictionary \<^verbatim>\<open>Taxonomy().read\<close> returned.
\<close>

type_synonym taxonomy = "string \<rightharpoonup> string list"

text \<open>\<^verbatim>\<open>';'.join(self.taxonomy[canonical_rid])\<close>; a missing key raises \<^verbatim>\<open>KeyError\<close>.\<close>

definition taxonomy_str :: "taxonomy \<Rightarrow> string \<Rightarrow> py_error + string" where
  "taxonomy_str taxonomy canonical_rid =
     (case taxonomy canonical_rid of
        None \<Rightarrow> Inl KeyError
      | Some ranks \<Rightarrow> Inr (py_join '';'' ranks))"

text \<open>
  Modelled from the spec: \<^verbatim>\<open>GTDBRadiiFile.get_rep_ani\<close>, whose class is not among the source
  files. The spec has it as the lookup \<^verbatim>\<open>species_radius[canonical(ref_id)]\<close> in a mapping from
  canonical reference id to ANI radius, a miss being fatal.
\<close>

definition get_rep_ani :: "(string \<rightharpoonup> real) \<Rightarrow> string \<Rightarrow> py_error + real" where
  "get_rep_ani gtdb_radii canonical_rid =
     (case gtdb_radii canonical_rid of None \<Rightarrow> Inl KeyError | Some r \<Rightarrow> Inr r)"

text \<open>
  A loop that writes one line per element: the first exception ends it, and no report is
  returned.
\<close>

fun write_rows :: "('a \<Rightarrow> py_error + row) \<Rightarrow> 'a list \<Rightarrow> py_error + row list" where
  "write_rows f [] = Inr []"
| "write_rows f (x # xs) =
     (case f x of
        Inl e \<Rightarrow> Inl e
      | Inr r \<Rightarrow> map_sum id (\<lambda>rs. r # rs) (write_rows f xs))"

subsection \<open>\<^verbatim>\<open>ANISummaryFile._write\<close>\<close>

definition summary_header :: row where
  "summary_header =
     [Text ''user_genome'', Text ''reference_genome'', Text ''fastani_ani'',
      Text ''fastani_af'', Text ''reference_taxonomy'']"

text \<open>
  The sort key of the inner loop, \<^verbatim>\<open>(-x[1]['af'], -x[1]['ani'], x[0])\<close>; tuples compare
  lexicographically.
\<close>

definition summary_key :: "string \<times> hit \<Rightarrow> real \<times> real \<times> string" where
  "summary_key x = (- af (snd x), - ani (snd x), fst x)"

text \<open>
  The pairs of the two nested loops, in the order the loops visit them. \<^verbatim>\<open>sorted\<close> is stable.
  \<^verbatim>\<open>sorted(self.results.items())\<close> compares the items by their keys: the keys of a dictionary
  differ, so the comparison of two items never reaches their values.
\<close>

definition summary_items :: "fastani_results \<Rightarrow> (string \<times> string \<times> hit) list" where
  "summary_items results =
     concat (map (\<lambda>(qry_gid, ref_hits).
                    map (\<lambda>(ref_gid, ref_hit). (qry_gid, ref_gid, ref_hit))
                      (sort_key summary_key ref_hits))
               (sort_key fst results))"

text \<open>The body of the inner loop.\<close>

definition summary_row ::
  "(string \<Rightarrow> string) \<Rightarrow> taxonomy \<Rightarrow> string \<times> string \<times> hit \<Rightarrow> py_error + row" where
  "summary_row canonical_gid taxonomy item =
     (case item of (qry_gid, ref_gid, ref_hit) \<Rightarrow>
        (case taxonomy_str taxonomy (canonical_gid ref_gid) of
           Inl e \<Rightarrow> Inl e
         | Inr tax \<Rightarrow>
             Inr [Text qry_gid, Text ref_gid, Float (ani ref_hit), Float (af ref_hit),
                  Text tax]))"

definition ANISummaryFile_write ::
  "(string \<Rightarrow> string) \<Rightarrow> fastani_results \<Rightarrow> taxonomy \<Rightarrow> py_error + row list" where
  "ANISummaryFile_write canonical_gid results taxonomy =
     map_sum id (\<lambda>rows. summary_header # rows)
       (write_rows (summary_row canonical_gid taxonomy) (summary_items results))"

subsection \<open>\<^verbatim>\<open>ANIClosestFile._write\<close>\<close>

definition closest_header :: row where
  "closest_header =
     [Text ''user_genome'', Text ''reference_genome'', Text ''fastani_ani'',
      Text ''fastani_af'', Text ''reference_taxonomy'',
      Text ''satisfies_gtdb_circumscription_criteria'']"

definition no_result :: field where
  "no_result = Text ''no result''"

text \<open>\<^verbatim>\<open>thresh_results\<close>: the hits whose alignment fraction reaches \<^verbatim>\<open>self.min_af\<close>.\<close>

definition thresh_results :: "real \<Rightarrow> hit dict \<Rightarrow> (string \<times> hit) list" where
  "thresh_results min_af ref_hits = filter (\<lambda>x. af (snd x) \<ge> min_af) ref_hits"

text \<open>The sort key \<^verbatim>\<open>(-x[1]['ani'], -x[1]['af'])\<close>.\<close>

definition closest_key :: "string \<times> hit \<Rightarrow> real \<times> real" where
  "closest_key x = (- ani (snd x), - af (snd x))"

text \<open>\<^verbatim>\<open>closest\<close>: the kept hits, sorted (stably) by the key.\<close>

definition closest :: "real \<Rightarrow> hit dict \<Rightarrow> (string \<times> hit) list" where
  "closest min_af ref_hits = sort_key closest_key (thresh_results min_af ref_hits)"

text \<open>The body of the loop over \<^verbatim>\<open>sorted(self.genomes)\<close>.\<close>

definition closest_row ::
  "(string \<Rightarrow> string) \<Rightarrow> real \<Rightarrow> fastani_results \<Rightarrow> real \<Rightarrow> taxonomy \<Rightarrow>
   (string \<rightharpoonup> real) \<Rightarrow> string \<Rightarrow> py_error + row" where
  "closest_row canonical_gid AF_THRESHOLD results min_af taxonomy gtdb_radii gid =
     (case map_of results gid of
        None \<Rightarrow> Inr [Text gid, no_result, no_result, no_result, no_result]
      | Some ref_hits \<Rightarrow>
          (case closest min_af ref_hits of
             [] \<Rightarrow> Inr [Text gid, no_result, no_result, no_result, no_result, no_result]
           | c # _ \<Rightarrow>
               (case taxonomy_str taxonomy (canonical_gid (fst c)) of
                  Inl e \<Rightarrow> Inl e
                | Inr tax \<Rightarrow>
                    (case get_rep_ani gtdb_radii (canonical_gid (fst c)) of
                       Inl e \<Rightarrow> Inl e
                     | Inr gtdb_ani_radius \<Rightarrow>
                         Inr [Text gid, Text (fst c), Float (ani (snd c)), Float (af (snd c)),
                              Text tax,
                              Flag (ani (snd c) \<ge> gtdb_ani_radius
                                    \<and> af (snd c) \<ge> AF_THRESHOLD)]))))"

definition ANIClosestFile_write ::
  "(string \<Rightarrow> string) \<Rightarrow> real \<Rightarrow> fastani_results \<Rightarrow> string dict \<Rightarrow> real \<Rightarrow> taxonomy \<Rightarrow>
   (string \<rightharpoonup> real) \<Rightarrow> py_error + row list" where
  "ANIClosestFile_write canonical_gid AF_THRESHOLD results genomes min_af taxonomy gtdb_radii =
     map_sum id (\<lambda>rows. closest_header # rows)
       (write_rows (closest_row canonical_gid AF_THRESHOLD results min_af taxonomy gtdb_radii)
          (sort (map fst genomes)))"

section \<open>Notions of the specification\<close>

text \<open>
  The accession a manifest line yields when its filename token has the extension (and the
  extension is not empty): the filename up to the extension.
\<close>

definition line_accession :: "string \<Rightarrow> string \<Rightarrow> string option" where
  "line_accession ext line =
     (case py_split (py_strip line) of
        [full_name, path] \<Rightarrow>
          if endswith full_name ext \<and> ext \<noteq> [] then Some (before_first ext full_name)
          else None
      | _ \<Rightarrow> None)"

text \<open>The accession of the last line of \<open>pre\<close> that yields one.\<close>

fun most_recent_accession :: "string \<Rightarrow> string list \<Rightarrow> string option" where
  "most_recent_accession ext [] = None"
| "most_recent_accession ext (line # rest) =
     (case most_recent_accession ext rest of
        Some a \<Rightarrow> Some a
      | None \<Rightarrow> line_accession ext line)"

text \<open>The relative path \<open>rel\<close> below the directory \<open>dir\<close>.\<close>

definition under_dir :: "string \<Rightarrow> string \<Rightarrow> string" where
  "under_dir dir rel = (if dir = [] \<or> endswith dir ''/'' then dir @ rel else dir @ ''/'' @ rel)"

text \<open>
  The order of the closest-match selection: \<open>x\<close> may stand before \<open>y\<close> when its ANI is
  higher, or the ANI is the same and its alignment fraction is at least as high.
\<close>

definition descending_ani_af :: "string \<times> hit \<Rightarrow> string \<times> hit \<Rightarrow> bool" where
  "descending_ani_af x y =
     (ani (snd x) > ani (snd y) \<or> (ani (snd x) = ani (snd y) \<and> af (snd x) \<ge> af (snd y)))"

text \<open>
  The order of the summary report on two data rows: the query id ascending; for one query
  the alignment fraction descending, then the ANI descending, then the reference id
  ascending. Rows of another shape are not related.
\<close>

definition summary_before :: "row \<Rightarrow> row \<Rightarrow> bool" where
  "summary_before r1 r2 =
     (case (r1, r2) of
        ([Text q1, Text g1, Float a1, Float f1, Text t1],
         [Text q2, Text g2, Float a2, Float f2, Text t2]) \<Rightarrow>
          q1 < q2 \<or> (q1 = q2 \<and> (f1 > f2 \<or> (f1 = f2 \<and> (a1 > a2 \<or> (a1 = a2 \<and> g1 < g2)))))
      | _ \<Rightarrow> False)"

text \<open>The same order on the pairs the two loops of the summary writer visit.\<close>

definition item_before :: "string \<times> string \<times> hit \<Rightarrow> string \<times> string \<times> hit \<Rightarrow> bool" where
  "item_before x y =
     (fst x < fst y \<or> (fst x = fst y \<and> summary_key (snd x) < summary_key (snd y)))"

section \<open>The reference catalogue\<close>

lemmas ref_eval =
  get_ref_genomes_def ref_genomes_step_def py_split_def py_strip_def isspace_def endswith_def
  split_first_def os_path_join_def join_step_def

lemma ref_genomes_loop_append:
  "ref_genomes_loop ext dir st (xs @ ys) =
     (case ref_genomes_loop ext dir st xs of
        Inl e \<Rightarrow> Inl e
      | Inr st' \<Rightarrow> ref_genomes_loop ext dir st' ys)"
  by (induction xs arbitrary: st) (auto split: sum.splits)

lemma ref_genomes_step_Inr:
  assumes "ref_genomes_step ext dir st line = Inr st'"
  shows "fst st' = (case line_accession ext line of Some a \<Rightarrow> Some a | None \<Rightarrow> fst st)"
    and "\<exists>a. fst st' = Some a \<and> map_of (snd st') a \<noteq> None"
  using assms
  by (auto simp: ref_genomes_step_def line_accession_def split_first_def update_conv'
      split: list.splits if_splits sum.splits option.splits)

text \<open>After a prefix of the manifest, \<^verbatim>\<open>accession\<close> holds what the last matching line gave.\<close>

lemma ref_genomes_loop_accession:
  "ref_genomes_loop ext dir st pre = Inr st' \<Longrightarrow>
   fst st' = (case most_recent_accession ext pre of Some a \<Rightarrow> Some a | None \<Rightarrow> fst st)"
proof (induction pre arbitrary: st)
  case Nil
  then show ?case by simp
next
  case (Cons line pre)
  then obtain st1 where s1: "ref_genomes_step ext dir st line = Inr st1"
    and l1: "ref_genomes_loop ext dir st1 pre = Inr st'"
    by (auto split: sum.splits)
  from Cons.IH [OF l1] ref_genomes_step_Inr(1) [OF s1] show ?case
    by (simp split: option.splits)
qed

text \<open>A bound \<^verbatim>\<open>accession\<close> is a key of \<^verbatim>\<open>ref_genomes\<close>.\<close>

lemma ref_genomes_loop_bound:
  "ref_genomes_loop ext dir st pre = Inr st' \<Longrightarrow>
   (\<forall>a. fst st = Some a \<longrightarrow> map_of (snd st) a \<noteq> None) \<Longrightarrow>
   (\<forall>a. fst st' = Some a \<longrightarrow> map_of (snd st') a \<noteq> None)"
proof (induction pre arbitrary: st)
  case Nil
  then show ?case by simp
next
  case (Cons line pre)
  then obtain st1 where s1: "ref_genomes_step ext dir st line = Inr st1"
    and l1: "ref_genomes_loop ext dir st1 pre = Inr st'"
    by (auto split: sum.splits)
  from ref_genomes_step_Inr(2) [OF s1]
  have "\<forall>a. fst st1 = Some a \<longrightarrow> map_of (snd st1) a \<noteq> None" by auto
  from Cons.IH [OF l1 this] show ?case .
qed

lemma ref_genomes_step_stale:
  assumes "py_split (py_strip line) = [full_name, path]" and "\<not> endswith full_name ext"
  shows "ref_genomes_step ext dir (Some a, refs) line =
           Inr (Some a, AList.update a (os_path_join dir [path, full_name]) refs)"
  using assms by (simp add: ref_genomes_step_def)

text \<open>
  Claim C5. A manifest line with two tokens whose filename token lacks the extension, reached
  after lines that loaded without raising and of which at least one had the extension, does
  not make the loading raise: its path is stored under the accession of the most recent
  line that had the extension. That accession has an entry already, so the entry's path is
  overwritten and no key is added.
\<close>

theorem stale_accession_reused:
  assumes "get_ref_genomes ext dir pre = Inr refs"
    and "most_recent_accession ext pre = Some a"
    and "py_split (py_strip line) = [full_name, path]"
    and "\<not> endswith full_name ext"
  shows "get_ref_genomes ext dir (pre @ [line]) =
           Inr (AList.update a (os_path_join dir [path, full_name]) refs)
         \<and> map_of refs a \<noteq> None
         \<and> map_of (AList.update a (os_path_join dir [path, full_name]) refs) a =
             Some (os_path_join dir [path, full_name])
         \<and> map fst (AList.update a (os_path_join dir [path, full_name]) refs) = map fst refs"
proof -
  from assms(1) obtain acc where
    l: "ref_genomes_loop ext dir (None, []) pre = Inr (acc, refs)"
    by (cases "ref_genomes_loop ext dir (None, []) pre") (auto simp: get_ref_genomes_def)
  from ref_genomes_loop_accession [OF l] assms(2) have acc: "acc = Some a" by simp
  from ref_genomes_loop_bound [OF l] acc have bound: "map_of refs a \<noteq> None" by simp
  have "get_ref_genomes ext dir (pre @ [line]) =
          Inr (AList.update a (os_path_join dir [path, full_name]) refs)"
    by (simp add: get_ref_genomes_def ref_genomes_loop_append l acc
        ref_genomes_step_stale [OF assms(3,4)])
  moreover have "map fst (AList.update a (os_path_join dir [path, full_name]) refs) = map fst refs"
    using bound by (simp add: update_keys map_of_eq_None_iff)
  ultimately show ?thesis using bound by (simp add: update_conv')
qed

theorem stale_accession_reused_witness:
  "get_ref_genomes ''.fna.gz'' ''/db'' [''genomeA.fna.gz a'', ''genomeB.fna.gz b'']
     = Inr [(''genomeA'', ''/db/a/genomeA.fna.gz''), (''genomeB'', ''/db/b/genomeB.fna.gz'')]
   \<and> most_recent_accession ''.fna.gz'' [''genomeA.fna.gz a'', ''genomeB.fna.gz b'']
     = Some ''genomeB''
   \<and> py_split (py_strip ''genomeC.fna c'') = [''genomeC.fna'', ''c'']
   \<and> \<not> endswith ''genomeC.fna'' ''.fna.gz''
   \<and> get_ref_genomes ''.fna.gz'' ''/db''
        ([''genomeA.fna.gz a'', ''genomeB.fna.gz b''] @ [''genomeC.fna c''])
       = Inr [(''genomeA'', ''/db/a/genomeA.fna.gz''), (''genomeB'', ''/db/c/genomeC.fna'')]"
proof -
  have h1: "get_ref_genomes ''.fna.gz'' ''/db'' [''genomeA.fna.gz a'', ''genomeB.fna.gz b'']
     = Inr [(''genomeA'', ''/db/a/genomeA.fna.gz''), (''genomeB'', ''/db/b/genomeB.fna.gz'')]"
    by (simp add: ref_eval)
  have h2: "most_recent_accession ''.fna.gz'' [''genomeA.fna.gz a'', ''genomeB.fna.gz b'']
     = Some ''genomeB''"
    by (simp add: line_accession_def ref_eval)
  have h3: "py_split (py_strip ''genomeC.fna c'') = [''genomeC.fna'', ''c'']"
    by (simp add: ref_eval)
  have h4: "\<not> endswith ''genomeC.fna'' ''.fna.gz''"
    by (simp add: ref_eval)
  from stale_accession_reused [OF h1 h2 h3 h4] h1 h2 h3 h4 show ?thesis
    by (simp add: os_path_join_def join_step_def endswith_def)
qed

text \<open>
  Claim C10. When the first line of the manifest has two tokens and its filename token lacks
  the extension, \<^verbatim>\<open>accession\<close> is read while unbound: the loading raises
  \<^verbatim>\<open>UnboundLocalError\<close>, whatever lines follow, and returns no mapping.
\<close>

theorem unbound_accession_raises:
  assumes "py_split (py_strip line) = [full_name, path]" and "\<not> endswith full_name ext"
  shows "get_ref_genomes ext dir (line # rest) = Inl UnboundLocalError"
  using assms by (simp add: get_ref_genomes_def ref_genomes_step_def)

theorem unbound_accession_raises_witness:
  "py_split (py_strip ''genomeB.fna b'') = [''genomeB.fna'', ''b'']
   \<and> \<not> endswith ''genomeB.fna'' ''.fna.gz''
   \<and> get_ref_genomes ''.fna.gz'' ''/db'' [''genomeB.fna b'', ''genomeA.fna.gz a'']
       = Inl UnboundLocalError"
proof -
  have h3: "py_split (py_strip ''genomeB.fna b'') = [''genomeB.fna'', ''b'']"
    by (simp add: ref_eval)
  have h4: "\<not> endswith ''genomeB.fna'' ''.fna.gz''"
    by (simp add: ref_eval)
  from unbound_accession_raises [OF h3 h4] h3 h4 show ?thesis by simp
qed

text \<open>
  Claim C7, as the code has it. The first token of a manifest line is the filename and the
  second the relative path. For the two lines \<^verbatim>\<open>genomeA.fna.gz a\<close> and \<^verbatim>\<open>genomeB.fna.gz b\<close>
  and the extension \<^verbatim>\<open>.fna.gz\<close> the loading returns exactly the mapping of \<^verbatim>\<open>genomeA\<close> to
  \<^verbatim>\<open>a/genomeA.fna.gz\<close> and of \<^verbatim>\<open>genomeB\<close> to \<^verbatim>\<open>b/genomeB.fna.gz\<close>, both below the reference
  directory, whatever that directory is.
\<close>

theorem manifest_example_filename_first:
  "get_ref_genomes ''.fna.gz'' dir [''genomeA.fna.gz a'', ''genomeB.fna.gz b''] =
     Inr [(''genomeA'', under_dir dir ''a/genomeA.fna.gz''),
          (''genomeB'', under_dir dir ''b/genomeB.fna.gz'')]"
  by (simp add: ref_eval under_dir_def)

text \<open>
  On the two lines as the claim writes them (path first) the keys are \<^verbatim>\<open>a/genomeA\<close> and
  \<^verbatim>\<open>b/genomeB\<close>, and the filename is taken for a directory.
\<close>

theorem manifest_example_counterexample:
  "get_ref_genomes ''.fna.gz'' ''/db''
     [''a/genomeA.fna.gz genomeA.fna.gz'', ''b/genomeB.fna.gz genomeB.fna.gz''] =
     Inr [(''a/genomeA'', ''/db/genomeA.fna.gz/a/genomeA.fna.gz''),
          (''b/genomeB'', ''/db/genomeB.fna.gz/b/genomeB.fna.gz'')]
   \<and> get_ref_genomes ''.fna.gz'' ''/db''
     [''a/genomeA.fna.gz genomeA.fna.gz'', ''b/genomeB.fna.gz genomeB.fna.gz''] \<noteq>
     Inr [(''genomeA'', ''/db/a/genomeA.fna.gz''), (''genomeB'', ''/db/b/genomeB.fna.gz'')]"
  by (simp add: ref_eval)

section \<open>The path lookup and the comparison sets\<close>

lemma map_of_foldl_update:
  "map_of (foldl (\<lambda>d kv. AList.update (fst kv) (snd kv) d) d items) =
     map_of d ++ map_of (rev items)"
  by (induction items arbitrary: d)
    (auto simp: update_conv' map_add_def fun_eq_iff split: option.splits)

lemma map_of_rev_distinct: "distinct (map fst xs) \<Longrightarrow> map_of (rev xs) = map_of xs"
proof (induction xs)
  case Nil
  then show ?case by simp
next
  case (Cons p xs)
  then have fresh: "map_of xs (fst p) = None" and IH: "map_of (rev xs) = map_of xs"
    by (simp_all add: map_of_eq_None_iff)
  show ?case
  proof
    fix k
    show "map_of (rev (p # xs)) k = map_of (p # xs) k"
      using fresh by (cases p) (auto simp: IH map_add_def split: option.splits)
  qed
qed

lemma map_of_d_paths:
  assumes "distinct (map fst genomes)" and "distinct (map fst ref_genomes)"
  shows "map_of (d_paths genomes ref_genomes) = map_of genomes ++ map_of ref_genomes"
  by (simp add: d_paths_def dict_of_items_def map_of_foldl_update
      map_of_rev_distinct [OF assms(1)] map_of_rev_distinct [OF assms(2)])

text \<open>
  Claim C6, as the code has it. In the combined path lookup a key of both pools resolves to
  the reference pool's path (the later write); every other key keeps the path of the pool it
  is in.
\<close>

theorem d_paths_reference_wins:
  assumes "distinct (map fst genomes)" and "distinct (map fst ref_genomes)"
  shows "map_of (d_paths genomes ref_genomes) k =
           (case map_of ref_genomes k of Some p \<Rightarrow> Some p | None \<Rightarrow> map_of genomes k)"
  by (simp add: map_of_d_paths [OF assms] map_add_def)

theorem d_paths_reference_wins_witness:
  "distinct (map fst [(''g1'', ''query/g1.fna''), (''g2'', ''query/g2.fna'')])
   \<and> distinct (map fst [(''g1'', ''ref/g1.fna.gz'')])
   \<and> map_of (d_paths [(''g1'', ''query/g1.fna''), (''g2'', ''query/g2.fna'')]
               [(''g1'', ''ref/g1.fna.gz'')]) ''g1'' = Some ''ref/g1.fna.gz''"
proof -
  have h1: "distinct (map fst [(''g1'', ''query/g1.fna''), (''g2'', ''query/g2.fna'')])"
    by simp
  have h2: "distinct (map fst [(''g1'', ''ref/g1.fna.gz'')])" by simp
  from d_paths_reference_wins [OF h1 h2, of "''g1''"] h1 h2 show ?thesis by simp
qed

text \<open>The query pool's path is not kept for a key of both pools.\<close>

theorem d_paths_query_kept_counterexample:
  "map_of (d_paths [(''g1'', ''query/g1.fna'')] [(''g1'', ''ref/g1.fna.gz'')]) ''g1''
     = Some ''ref/g1.fna.gz''
   \<and> map_of (d_paths [(''g1'', ''query/g1.fna'')] [(''g1'', ''ref/g1.fna.gz'')]) ''g1''
     \<noteq> map_of [(''g1'', ''query/g1.fna'')] ''g1''"
  by (simp add: d_paths_def dict_of_items_def)

text \<open>
  What the loop over the prefilter's results leaves under a key: the union of the candidate
  sets the results give for it.
\<close>

lemma map_of_foldl_mash_step:
  "map_of (foldl mash_step d mash_results) q =
     (if q \<in> fst ` set mash_results
      then Some (defaultdict_get d q
                 \<union> (\<Union>h \<in> {h. (q, h) \<in> set mash_results}. set (map fst h)))
      else map_of d q)"
proof (induction mash_results arbitrary: d)
  case Nil
  then show ?case by simp
next
  case (Cons item mash_results)
  obtain q' h' where item: "item = (q', h')" by (cases item)
  have get: "defaultdict_get (mash_step d item) q =
    (if q = q' then defaultdict_get d q \<union> set (map fst h') else defaultdict_get d q)"
    by (simp add: mash_step_def defaultdict_get_def update_conv' item)
  have look: "map_of (mash_step d item) q =
    (if q = q' then Some (defaultdict_get d q \<union> set (map fst h')) else map_of d q)"
    by (simp add: mash_step_def update_conv' item)
  show ?case
    unfolding foldl_Cons Cons.IH get look
    by (force simp: item)
qed

text \<open>
  Claim C9, as the code has it. With the prefilter enabled, the comparison sets have exactly
  the keys of the prefilter's result, each with the reference ids the result gives for it: the
  empty set for a key whose dictionary is empty. A query genome that is no key of the
  prefilter's result has no entry in the comparison sets.
\<close>

theorem d_compare_keys_of_prefilter:
  "map_of (build_d_compare False genomes ref_genomes mash_results) qry_gid =
     (if qry_gid \<in> fst ` set mash_results
      then Some (\<Union>h \<in> {h. (qry_gid, h) \<in> set mash_results}. set (map fst h))
      else None)"
  by (simp add: build_d_compare_def map_of_foldl_mash_step defaultdict_get_def)

theorem d_compare_keys_of_prefilter_witness:
  "map_of (build_d_compare False [(''q1'', ''q1.fna''), (''q2'', ''q2.fna''), (''q3'', ''q3.fna'')]
             [(''r1'', ''r1.fna.gz'')] [(''q2'', [(''r1'', 0.01::real)]), (''q3'', [])]) ''q3''
     = Some {}
   \<and> map_of (build_d_compare False [(''q1'', ''q1.fna''), (''q2'', ''q2.fna''), (''q3'', ''q3.fna'')]
             [(''r1'', ''r1.fna.gz'')] [(''q2'', [(''r1'', 0.01::real)]), (''q3'', [])]) ''q1''
     = None"
  using d_compare_keys_of_prefilter
    [of "[(''q1'', ''q1.fna''), (''q2'', ''q2.fna''), (''q3'', ''q3.fna'')]"
      "[(''r1'', ''r1.fna.gz'')]" "[(''q2'', [(''r1'', 0.01::real)]), (''q3'', [])]" "''q3''"]
    d_compare_keys_of_prefilter
    [of "[(''q1'', ''q1.fna''), (''q2'', ''q2.fna''), (''q3'', ''q3.fna'')]"
      "[(''r1'', ''r1.fna.gz'')]" "[(''q2'', [(''r1'', 0.01::real)]), (''q3'', [])]" "''q1''"]
  by simp

text \<open>
  A query genome for which the prefilter's result has no key is dropped from the comparison
  sets; it is not kept with the empty set.
\<close>

theorem zero_candidate_query_dropped_counterexample:
  "map_of (build_d_compare False [(''q1'', ''q1.fna''), (''q2'', ''q2.fna'')]
             [(''r1'', ''r1.fna.gz'')] [(''q2'', [(''r1'', 0.01::real)])]) ''q1'' = None
   \<and> map_of (build_d_compare False [(''q1'', ''q1.fna''), (''q2'', ''q2.fna'')]
             [(''r1'', ''r1.fna.gz'')] [(''q2'', [(''r1'', 0.01::real)])]) ''q1'' \<noteq> Some {}"
  by (simp add: build_d_compare_def mash_step_def defaultdict_get_def)

section \<open>The closest-match report\<close>

lemmas closest_eval =
  ANIClosestFile_write_def closest_row_def closest_def thresh_results_def closest_key_def
  taxonomy_str_def get_rep_ani_def

lemma write_rows_Inr:
  "write_rows f xs = Inr rows \<longleftrightarrow> list_all2 (\<lambda>x r. f x = Inr r) xs rows"
proof (induction xs arbitrary: rows)
  case Nil
  then show ?case by auto
next
  case (Cons x xs)
  show ?case
  proof (cases "f x")
    case (Inl e)
    then show ?thesis by (auto simp: list_all2_Cons1)
  next
    case (Inr r)
    have IH: "list_all2 (\<lambda>x r. f x = Inr r) xs zs \<longleftrightarrow> write_rows f xs = Inr zs" for zs
      by (simp add: Cons.IH)
    show ?thesis
      by (cases "write_rows f xs") (auto simp: list_all2_Cons1 IH Inr)
  qed
qed

lemma write_rows_nth:
  assumes "write_rows f xs = Inr rows"
  shows "length rows = length xs" and "i < length xs \<Longrightarrow> f (xs ! i) = Inr (rows ! i)"
  using assms by (auto simp: write_rows_Inr list_all2_conv_all_nth)

lemma write_rows_Inl:
  "write_rows f xs = Inl e \<Longrightarrow> \<exists>x \<in> set xs. f x = Inl e"
proof (induction xs)
  case Nil
  then show ?case by simp
next
  case (Cons x xs)
  then show ?case
    by (cases "f x"; cases "write_rows f xs") auto
qed

lemma write_rows_raises:
  assumes "x \<in> set xs" and "f x = Inl e"
  shows "\<exists>e'. write_rows f xs = Inl e'"
proof (cases "write_rows f xs")
  case (Inl e')
  then show ?thesis by simp
next
  case (Inr rows)
  then have "list_all2 (\<lambda>x r. f x = Inr r) xs rows" by (simp add: write_rows_Inr)
  with assms(1) obtain r where "f x = Inr r"
    by (auto simp: list_all2_conv_all_nth in_set_conv_nth)
  with assms(2) show ?thesis by simp
qed

lemma closest_key_le:
  "closest_key x \<le> closest_key y \<longleftrightarrow> descending_ani_af x y"
  by (auto simp: closest_key_def descending_ani_af_def less_eq_prod_def)

lemma sorted_closest: "sorted_wrt descending_ani_af (closest min_af ref_hits)"
proof -
  have "sorted (map closest_key (closest min_af ref_hits))"
    by (simp add: closest_def)
  then show ?thesis
    by (simp add: sorted_map closest_key_le)
qed

lemma set_closest:
  "set (closest min_af ref_hits) = {x \<in> set ref_hits. min_af \<le> af (snd x)}"
  by (auto simp: closest_def thresh_results_def)

text \<open>
  The selection \<^verbatim>\<open>closest\<close> holds exactly the hits whose alignment fraction is at least
  \<^verbatim>\<open>min_af\<close>, as many entries as the table has such hits, ordered by descending ANI and then
  descending alignment fraction; no kept hit stands before its first entry in that order.
\<close>

lemma closest_sorted_kept:
  "set (closest min_af ref_hits) = {x \<in> set ref_hits. min_af \<le> af (snd x)}
   \<and> length (closest min_af ref_hits) = length (filter (\<lambda>x. min_af \<le> af (snd x)) ref_hits)
   \<and> sorted_wrt descending_ani_af (closest min_af ref_hits)
   \<and> (\<forall>c cs. closest min_af ref_hits = c # cs \<longrightarrow>
        c \<in> set ref_hits \<and> min_af \<le> af (snd c)
        \<and> (\<forall>x \<in> set ref_hits. min_af \<le> af (snd x) \<longrightarrow> descending_ani_af c x))"
proof -
  have winner: "c \<in> set ref_hits \<and> min_af \<le> af (snd c)
        \<and> (\<forall>x \<in> set ref_hits. min_af \<le> af (snd x) \<longrightarrow> descending_ani_af c x)"
    if eq: "closest min_af ref_hits = c # cs" for c cs
  proof -
    have "c \<in> set (closest min_af ref_hits)" by (simp add: eq)
    then have c: "c \<in> set ref_hits" "min_af \<le> af (snd c)" by (simp_all add: set_closest)
    have "descending_ani_af c x" if "x \<in> set ref_hits" "min_af \<le> af (snd x)" for x
    proof -
      from that have "x \<in> set (c # cs)" unfolding eq [symmetric] by (simp add: set_closest)
      moreover have "sorted_wrt descending_ani_af (c # cs)"
        unfolding eq [symmetric] by (rule sorted_closest)
      ultimately show ?thesis by (auto simp: descending_ani_af_def)
    qed
    with c show ?thesis by blast
  qed
  have len: "length (closest min_af ref_hits) =
      length (filter (\<lambda>x. min_af \<le> af (snd x)) ref_hits)"
    by (simp add: closest_def thresh_results_def)
  from winner len set_closest [of min_af ref_hits] sorted_closest [of min_af ref_hits]
  show ?thesis by blast
qed

lemma closest_Nil_iff:
  "closest min_af ref_hits = [] \<longleftrightarrow> (\<forall>x \<in> set ref_hits. af (snd x) < min_af)"
proof -
  have "closest min_af ref_hits = [] \<longleftrightarrow> set (closest min_af ref_hits) = {}" by simp
  also have "\<dots> \<longleftrightarrow> (\<forall>x \<in> set ref_hits. af (snd x) < min_af)"
    unfolding set_closest by (auto simp: not_le [symmetric])
  finally show ?thesis .
qed

lemma closest_row_shape:
  assumes "closest_row canonical_gid AF_THRESHOLD results min_af taxonomy gtdb_radii gid = Inr row"
  shows "case map_of results gid of
           None \<Rightarrow> row = Text gid # replicate 4 (Text ''no result'')
         | Some ref_hits \<Rightarrow>
             if \<forall>x \<in> set ref_hits. af (snd x) < min_af
             then row = Text gid # replicate 5 (Text ''no result'')
             else \<exists>ref_gid a f tax flag.
                    row = [Text gid, Text ref_gid, Float a, Float f, Text tax, Flag flag]"
proof (cases "map_of results gid")
  case None
  with assms show ?thesis
    by (simp add: closest_row_def no_result_def numeral_eq_Suc)
next
  case (Some ref_hits)
  show ?thesis
  proof (cases "closest min_af ref_hits")
    case Nil
    with assms Some have "row = Text gid # replicate 5 (Text ''no result'')"
      by (simp add: closest_row_def no_result_def numeral_eq_Suc)
    with Nil Some show ?thesis by (simp add: closest_Nil_iff)
  next
    case (Cons c cs)
    then have "\<not> (\<forall>x \<in> set ref_hits. af (snd x) < min_af)"
      by (simp add: closest_Nil_iff [symmetric])
    moreover from assms Some Cons
    have "\<exists>ref_gid a f tax flag.
            row = [Text gid, Text ref_gid, Float a, Float f, Text tax, Flag flag]"
      by (auto simp: closest_row_def split: sum.splits)
    ultimately show ?thesis using Some by auto
  qed
qed

lemma ANIClosestFile_write_Inr:
  assumes "ANIClosestFile_write canonical_gid AF_THRESHOLD results genomes min_af taxonomy
             gtdb_radii = Inr out"
  shows "length out = Suc (length genomes)"
    and "i < length genomes \<Longrightarrow>
         closest_row canonical_gid AF_THRESHOLD results min_af taxonomy gtdb_radii
           (sort (map fst genomes) ! i) = Inr (out ! Suc i)"
proof -
  from assms obtain rows where out: "out = closest_header # rows"
    and rows: "write_rows (closest_row canonical_gid AF_THRESHOLD results min_af taxonomy gtdb_radii)
                 (sort (map fst genomes)) = Inr rows"
    by (cases "write_rows (closest_row canonical_gid AF_THRESHOLD results min_af taxonomy gtdb_radii)
                 (sort (map fst genomes))") (auto simp: ANIClosestFile_write_def)
  from write_rows_nth(1) [OF rows] show "length out = Suc (length genomes)"
    by (simp add: out)
  show "closest_row canonical_gid AF_THRESHOLD results min_af taxonomy gtdb_radii
           (sort (map fst genomes) ! i) = Inr (out ! Suc i)" if "i < length genomes"
    using write_rows_nth(2) [OF rows, of i] that by (simp add: out)
qed

text \<open>
  Claim C2. In a report that was written, for a query genome that is a key of the similarity
  table: the selection keeps exactly the hits whose alignment fraction is at least
  \<^verbatim>\<open>min_af\<close> and orders them by descending ANI, then descending alignment fraction. When no
  hit is kept the query's row has the five \<^verbatim>\<open>no result\<close> fields. Otherwise the row written
  for the query carries the reference id, the ANI and the alignment fraction of the first
  entry of that order, the winner; the winner is a hit of the query, no kept hit stands before
  it, and its alignment fraction is at least \<^verbatim>\<open>min_af\<close>.
\<close>

theorem closest_winner_written:
  assumes "ANIClosestFile_write canonical_gid AF_THRESHOLD results genomes min_af taxonomy
             gtdb_radii = Inr out"
    and "i < length genomes"
    and "map_of results (sort (map fst genomes) ! i) = Some ref_hits"
  shows "set (closest min_af ref_hits) = {x \<in> set ref_hits. min_af \<le> af (snd x)}
         \<and> length (closest min_af ref_hits)
             = length (filter (\<lambda>x. min_af \<le> af (snd x)) ref_hits)
         \<and> sorted_wrt descending_ani_af (closest min_af ref_hits)
         \<and> (case closest min_af ref_hits of
               [] \<Rightarrow>
                 out ! Suc i =
                   Text (sort (map fst genomes) ! i) # replicate 5 (Text ''no result'')
             | c # cs \<Rightarrow>
                 c \<in> set ref_hits \<and> min_af \<le> af (snd c)
                 \<and> (\<forall>x \<in> set ref_hits. min_af \<le> af (snd x) \<longrightarrow> descending_ani_af c x)
                 \<and> (\<exists>tax flag.
                       out ! Suc i =
                         [Text (sort (map fst genomes) ! i), Text (fst c), Float (ani (snd c)),
                          Float (af (snd c)), Text tax, Flag flag]))"
proof -
  have row: "closest_row canonical_gid AF_THRESHOLD results min_af taxonomy gtdb_radii
               (sort (map fst genomes) ! i) = Inr (out ! Suc i)"
    by (rule ANIClosestFile_write_Inr(2) [OF assms(1,2)])
  have written: "case closest min_af ref_hits of
               [] \<Rightarrow>
                 out ! Suc i =
                   Text (sort (map fst genomes) ! i) # replicate 5 (Text ''no result'')
             | c # cs \<Rightarrow>
                 c \<in> set ref_hits \<and> min_af \<le> af (snd c)
                 \<and> (\<forall>x \<in> set ref_hits. min_af \<le> af (snd x) \<longrightarrow> descending_ani_af c x)
                 \<and> (\<exists>tax flag.
                       out ! Suc i =
                         [Text (sort (map fst genomes) ! i), Text (fst c), Float (ani (snd c)),
                          Float (af (snd c)), Text tax, Flag flag])"
  proof (cases "closest min_af ref_hits")
    case Nil
    with row assms(3) show ?thesis
      by (simp add: closest_row_def no_result_def numeral_eq_Suc)
  next
    case (Cons c cs)
    from closest_sorted_kept [of min_af ref_hits] Cons
    have sel: "c \<in> set ref_hits \<and> min_af \<le> af (snd c)
        \<and> (\<forall>x \<in> set ref_hits. min_af \<le> af (snd x) \<longrightarrow> descending_ani_af c x)"
      by blast
    from row assms(3) Cons
    have "\<exists>tax flag.
            out ! Suc i =
              [Text (sort (map fst genomes) ! i), Text (fst c), Float (ani (snd c)),
               Float (af (snd c)), Text tax, Flag flag]"
      by (auto simp: closest_row_def split: sum.splits dest: sym)
    with sel Cons show ?thesis by simp
  qed
  from closest_sorted_kept [of min_af ref_hits] written show ?thesis by blast
qed

theorem closest_winner_written_witness:
  "ANIClosestFile_write id 0.65
     [(''q1'', [(''r1'', \<lparr>ani = 98, af = 0.9\<rparr>), (''r2'', \<lparr>ani = 99, af = 0.5\<rparr>),
                (''r3'', \<lparr>ani = 98, af = 0.95\<rparr>)])]
     [(''q1'', ''q1.fna'')] 0.8
     (map_of [(''r3'', [''d__Bacteria'', ''s__Escherichia coli''])])
     (map_of [(''r3'', 95)])
   = Inr [closest_header,
          [Text ''q1'', Text ''r3'', Float 98, Float 0.95,
           Text ''d__Bacteria;s__Escherichia coli'', Flag True]]
   \<and> (0::nat) < length [(''q1'', ''q1.fna'')]
   \<and> map_of [(''q1'', [(''r1'', \<lparr>ani = 98, af = 0.9\<rparr>), (''r2'', \<lparr>ani = 99, af = 0.5\<rparr>),
                (''r3'', \<lparr>ani = 98, af = 0.95\<rparr>)])]
        (sort (map fst [(''q1'', ''q1.fna'')]) ! 0)
       = Some [(''r1'', \<lparr>ani = 98, af = 0.9\<rparr>), (''r2'', \<lparr>ani = 99, af = 0.5\<rparr>),
                (''r3'', \<lparr>ani = 98, af = 0.95\<rparr>)]
   \<and> closest 0.8 [(''r1'', \<lparr>ani = 98, af = 0.9\<rparr>), (''r2'', \<lparr>ani = 99, af = 0.5\<rparr>),
                (''r3'', \<lparr>ani = 98, af = 0.95\<rparr>)]
     = [(''r3'', \<lparr>ani = 98, af = 0.95\<rparr>), (''r1'', \<lparr>ani = 98, af = 0.9\<rparr>)]
   \<and> sorted_wrt descending_ani_af
        (closest 0.8 [(''r1'', \<lparr>ani = 98, af = 0.9\<rparr>), (''r2'', \<lparr>ani = 99, af = 0.5\<rparr>),
                (''r3'', \<lparr>ani = 98, af = 0.95\<rparr>)])
   \<and> 0.8 \<le> af (snd (''r3'', \<lparr>ani = 98, af = 0.95\<rparr>))"
proof -
  have h1: "ANIClosestFile_write id 0.65
     [(''q1'', [(''r1'', \<lparr>ani = 98, af = 0.9\<rparr>), (''r2'', \<lparr>ani = 99, af = 0.5\<rparr>),
                (''r3'', \<lparr>ani = 98, af = 0.95\<rparr>)])]
     [(''q1'', ''q1.fna'')] 0.8
     (map_of [(''r3'', [''d__Bacteria'', ''s__Escherichia coli''])])
     (map_of [(''r3'', 95)])
   = Inr [closest_header,
          [Text ''q1'', Text ''r3'', Float 98, Float 0.95,
           Text ''d__Bacteria;s__Escherichia coli'', Flag True]]"
    by (simp add: closest_eval)
  have h2: "(0::nat) < length [(''q1'', ''q1.fna'')]" by simp
  have h3: "map_of [(''q1'', [(''r1'', \<lparr>ani = 98, af = 0.9\<rparr>), (''r2'', \<lparr>ani = 99, af = 0.5\<rparr>),
                (''r3'', \<lparr>ani = 98, af = 0.95\<rparr>)])]
        (sort (map fst [(''q1'', ''q1.fna'')]) ! 0)
       = Some [(''r1'', \<lparr>ani = 98, af = 0.9\<rparr>), (''r2'', \<lparr>ani = 99, af = 0.5\<rparr>),
                (''r3'', \<lparr>ani = 98, af = 0.95\<rparr>)]"
    by simp
  have h4: "closest 0.8 [(''r1'', \<lparr>ani = 98, af = 0.9\<rparr>), (''r2'', \<lparr>ani = 99, af = 0.5\<rparr>),
                (''r3'', \<lparr>ani = 98, af = 0.95\<rparr>)]
     = [(''r3'', \<lparr>ani = 98, af = 0.95\<rparr>), (''r1'', \<lparr>ani = 98, af = 0.9\<rparr>)]"
    by (simp add: closest_eval)
  from closest_winner_written [OF h1 h2 h3] h1 h2 h3 h4 show ?thesis by simp
qed

text \<open>
  Claim C3. In a report that was written, the data row of the \<open>i\<close>-th query id (in ascending
  order) has one of three shapes: the query id and four \<^verbatim>\<open>no result\<close> fields when the id is no
  key of the similarity table; the query id and five \<^verbatim>\<open>no result\<close> fields when it is a key and
  every hit has an alignment fraction below \<^verbatim>\<open>min_af\<close>; otherwise the six columns of a result.
\<close>

theorem closest_report_row_shapes:
  assumes "ANIClosestFile_write canonical_gid AF_THRESHOLD results genomes min_af taxonomy
             gtdb_radii = Inr out"
  shows "length out = Suc (length genomes)
         \<and> (\<forall>i < length genomes.
              case map_of results (sort (map fst genomes) ! i) of
                None \<Rightarrow>
                  out ! Suc i =
                    Text (sort (map fst genomes) ! i) # replicate 4 (Text ''no result'')
              | Some ref_hits \<Rightarrow>
                  if \<forall>x \<in> set ref_hits. af (snd x) < min_af
                  then out ! Suc i =
                         Text (sort (map fst genomes) ! i) # replicate 5 (Text ''no result'')
                  else \<exists>ref_gid a f tax flag.
                         out ! Suc i =
                           [Text (sort (map fst genomes) ! i), Text ref_gid, Float a, Float f,
                            Text tax, Flag flag])"
proof (intro conjI allI impI)
  show "length out = Suc (length genomes)"
    by (rule ANIClosestFile_write_Inr(1) [OF assms])
next
  fix i
  assume "i < length genomes"
  then show "case map_of results (sort (map fst genomes) ! i) of
                None \<Rightarrow>
                  out ! Suc i =
                    Text (sort (map fst genomes) ! i) # replicate 4 (Text ''no result'')
              | Some ref_hits \<Rightarrow>
                  if \<forall>x \<in> set ref_hits. af (snd x) < min_af
                  then out ! Suc i =
                         Text (sort (map fst genomes) ! i) # replicate 5 (Text ''no result'')
                  else \<exists>ref_gid a f tax flag.
                         out ! Suc i =
                           [Text (sort (map fst genomes) ! i), Text ref_gid, Float a, Float f,
                            Text tax, Flag flag]"
    by (rule closest_row_shape [OF ANIClosestFile_write_Inr(2) [OF assms]])
qed

theorem closest_report_row_shapes_witness:
  "ANIClosestFile_write id 0.65
     [(''q2'', [(''r1'', \<lparr>ani = 98, af = 0.9\<rparr>), (''r2'', \<lparr>ani = 99, af = 0.5\<rparr>)]),
      (''q1'', [(''r1'', \<lparr>ani = 97, af = 0.3\<rparr>)])]
     [(''q2'', ''q2.fna''), (''q0'', ''q0.fna''), (''q1'', ''q1.fna'')] 0.8
     (map_of [(''r1'', [''d__Bacteria'', ''s__Escherichia coli''])])
     (map_of [(''r1'', 95)])
   = Inr [closest_header,
          [Text ''q0'', Text ''no result'', Text ''no result'', Text ''no result'',
           Text ''no result''],
          [Text ''q1'', Text ''no result'', Text ''no result'', Text ''no result'',
           Text ''no result'', Text ''no result''],
          [Text ''q2'', Text ''r1'', Float 98, Float 0.9,
           Text ''d__Bacteria;s__Escherichia coli'', Flag True]]
   \<and> length [closest_header,
          [Text ''q0'', Text ''no result'', Text ''no result'', Text ''no result'',
           Text ''no result''],
          [Text ''q1'', Text ''no result'', Text ''no result'', Text ''no result'',
           Text ''no result'', Text ''no result''],
          [Text ''q2'', Text ''r1'', Float 98, Float 0.9,
           Text ''d__Bacteria;s__Escherichia coli'', Flag True]]
       = Suc (length [(''q2'', ''q2.fna''), (''q0'', ''q0.fna''), (''q1'', ''q1.fna'')])"
proof -
  have h: "ANIClosestFile_write id 0.65
     [(''q2'', [(''r1'', \<lparr>ani = 98, af = 0.9\<rparr>), (''r2'', \<lparr>ani = 99, af = 0.5\<rparr>)]),
      (''q1'', [(''r1'', \<lparr>ani = 97, af = 0.3\<rparr>)])]
     [(''q2'', ''q2.fna''), (''q0'', ''q0.fna''), (''q1'', ''q1.fna'')] 0.8
     (map_of [(''r1'', [''d__Bacteria'', ''s__Escherichia coli''])])
     (map_of [(''r1'', 95)])
   = Inr [closest_header,
          [Text ''q0'', Text ''no result'', Text ''no result'', Text ''no result'',
           Text ''no result''],
          [Text ''q1'', Text ''no result'', Text ''no result'', Text ''no result'',
           Text ''no result'', Text ''no result''],
          [Text ''q2'', Text ''r1'', Float 98, Float 0.9,
           Text ''d__Bacteria;s__Escherichia coli'', Flag True]]"
    by (simp add: closest_eval no_result_def less_eq_char_def less_char_def)
  from closest_report_row_shapes [OF h] h show ?thesis by simp
qed

text \<open>
  Claim C1. In a report that was written, the row of a query with a winning hit ends with the
  flag that is true exactly when the winner's ANI is at least the radius found under the
  canonical form of the winner's reference id and the winner's alignment fraction is at least
  \<^verbatim>\<open>AF_THRESHOLD\<close>, a constant that is not \<^verbatim>\<open>min_af\<close>.
\<close>

theorem circumscription_flag:
  assumes "ANIClosestFile_write canonical_gid AF_THRESHOLD results genomes min_af taxonomy
             gtdb_radii = Inr out"
    and "i < length genomes"
    and "map_of results (sort (map fst genomes) ! i) = Some ref_hits"
    and "closest min_af ref_hits = c # cs"
  shows "\<exists>ranks radius.
           taxonomy (canonical_gid (fst c)) = Some ranks
           \<and> gtdb_radii (canonical_gid (fst c)) = Some radius
           \<and> out ! Suc i =
               [Text (sort (map fst genomes) ! i), Text (fst c), Float (ani (snd c)),
                Float (af (snd c)), Text (py_join '';'' ranks),
                Flag (ani (snd c) \<ge> radius \<and> af (snd c) \<ge> AF_THRESHOLD)]"
proof -
  have row: "closest_row canonical_gid AF_THRESHOLD results min_af taxonomy gtdb_radii
               (sort (map fst genomes) ! i) = Inr (out ! Suc i)"
    by (rule ANIClosestFile_write_Inr(2) [OF assms(1,2)])
  show ?thesis
  proof (cases "taxonomy (canonical_gid (fst c))")
    case None
    with row assms(3,4) show ?thesis
      by (simp add: closest_row_def taxonomy_str_def)
  next
    case ranks: (Some ranks)
    show ?thesis
    proof (cases "gtdb_radii (canonical_gid (fst c))")
      case None
      with row assms(3,4) ranks show ?thesis
        by (simp add: closest_row_def taxonomy_str_def get_rep_ani_def)
    next
      case (Some radius)
      with row assms(3,4) ranks show ?thesis
        by (simp add: closest_row_def taxonomy_str_def get_rep_ani_def)
    qed
  qed
qed

theorem circumscription_flag_witness:
  "ANIClosestFile_write (takeWhile (\<lambda>c. c \<noteq> CHR ''.'')) 0.65
     [(''q1'', [(''G01.1'', \<lparr>ani = 98, af = 0.6\<rparr>), (''G02.1'', \<lparr>ani = 99, af = 0.4\<rparr>)])]
     [(''q1'', ''q1.fna'')] 0.5
     (map_of [(''G01'', [''d__Bacteria'', ''s__Escherichia coli''])])
     (map_of [(''G01'', 95)])
   = Inr [closest_header,
          [Text ''q1'', Text ''G01.1'', Float 98, Float 0.6,
           Text ''d__Bacteria;s__Escherichia coli'', Flag False]]
   \<and> (0::nat) < length [(''q1'', ''q1.fna'')]
   \<and> map_of [(''q1'', [(''G01.1'', \<lparr>ani = 98, af = 0.6\<rparr>), (''G02.1'', \<lparr>ani = 99, af = 0.4\<rparr>)])]
        (sort (map fst [(''q1'', ''q1.fna'')]) ! 0)
       = Some [(''G01.1'', \<lparr>ani = 98, af = 0.6\<rparr>), (''G02.1'', \<lparr>ani = 99, af = 0.4\<rparr>)]
   \<and> closest 0.5 [(''G01.1'', \<lparr>ani = 98, af = 0.6\<rparr>), (''G02.1'', \<lparr>ani = 99, af = 0.4\<rparr>)]
       = [(''G01.1'', \<lparr>ani = 98, af = 0.6\<rparr>)]
   \<and> (\<exists>ranks radius.
         map_of [(''G01'', [''d__Bacteria'', ''s__Escherichia coli''])] ''G01'' = Some ranks
         \<and> map_of [(''G01'', 95::real)] ''G01'' = Some radius
         \<and> [Text ''q1'', Text ''G01.1'', Float 98, Float 0.6,
             Text ''d__Bacteria;s__Escherichia coli'', Flag False]
            = [Text ''q1'', Text ''G01.1'', Float 98, Float 0.6, Text (py_join '';'' ranks),
               Flag (98 \<ge> radius \<and> (0.6::real) \<ge> 0.65)])"
proof -
  have h1: "ANIClosestFile_write (takeWhile (\<lambda>c. c \<noteq> CHR ''.'')) 0.65
     [(''q1'', [(''G01.1'', \<lparr>ani = 98, af = 0.6\<rparr>), (''G02.1'', \<lparr>ani = 99, af = 0.4\<rparr>)])]
     [(''q1'', ''q1.fna'')] 0.5
     (map_of [(''G01'', [''d__Bacteria'', ''s__Escherichia coli''])])
     (map_of [(''G01'', 95)])
   = Inr [closest_header,
          [Text ''q1'', Text ''G01.1'', Float 98, Float 0.6,
           Text ''d__Bacteria;s__Escherichia coli'', Flag False]]"
    by (simp add: closest_eval)
  have h2: "(0::nat) < length [(''q1'', ''q1.fna'')]" by simp
  have h3: "map_of [(''q1'', [(''G01.1'', \<lparr>ani = 98, af = 0.6\<rparr>), (''G02.1'', \<lparr>ani = 99, af = 0.4\<rparr>)])]
        (sort (map fst [(''q1'', ''q1.fna'')]) ! 0)
       = Some [(''G01.1'', \<lparr>ani = 98, af = 0.6\<rparr>), (''G02.1'', \<lparr>ani = 99, af = 0.4\<rparr>)]"
    by simp
  have h4: "closest 0.5 [(''G01.1'', \<lparr>ani = 98, af = 0.6\<rparr>), (''G02.1'', \<lparr>ani = 99, af = 0.4\<rparr>)]
       = [(''G01.1'', \<lparr>ani = 98, af = 0.6\<rparr>)]"
    by (simp add: closest_eval)
  from circumscription_flag [OF h1 h2 h3 h4] h1 h2 h3 h4 show ?thesis
    by simp
qed

section \<open>The summary report\<close>

lemmas summary_eval =
  ANISummaryFile_write_def summary_items_def summary_row_def summary_key_def taxonomy_str_def
  less_eq_char_def less_char_def

lemma sorted_wrt_concat:
  "sorted_wrt P (concat xss) \<longleftrightarrow>
     (\<forall>xs \<in> set xss. sorted_wrt P xs)
     \<and> sorted_wrt (\<lambda>xs ys. \<forall>x \<in> set xs. \<forall>y \<in> set ys. P x y) xss"
  by (induction xss) (auto simp: sorted_wrt_append)

lemma sort_key_strict:
  assumes "distinct (map f xs)"
  shows "sorted_wrt (\<lambda>x y. f x < f y) (sort_key f xs)"
proof -
  have "sorted (map f (sort_key f xs))" by simp
  moreover from assms have "distinct (map f (sort_key f xs))"
    by (simp add: distinct_map)
  ultimately have "sorted_wrt (<) (map f (sort_key f xs))"
    by (simp add: strict_sorted_iff)
  then show ?thesis by (simp add: sorted_wrt_map)
qed

lemma distinct_summary_key:
  assumes "distinct (map fst ref_hits)"
  shows "distinct (map summary_key ref_hits)"
proof -
  from assms have d: "distinct ref_hits" and i: "inj_on fst (set ref_hits)"
    by (simp_all add: distinct_map)
  have "inj_on summary_key (set ref_hits)"
  proof (rule inj_onI)
    fix x y
    assume "x \<in> set ref_hits" "y \<in> set ref_hits" "summary_key x = summary_key y"
    then show "x = y" using i by (auto simp: summary_key_def dest: inj_onD)
  qed
  with d show ?thesis by (simp add: distinct_map)
qed

lemma sorted_summary_items:
  assumes "distinct (map fst results)"
    and "\<forall>qh \<in> set results. distinct (map fst (snd qh))"
  shows "sorted_wrt item_before (summary_items results)"
proof -
  let ?g = "\<lambda>(qry_gid, ref_hits).
              map (\<lambda>(ref_gid, ref_hit). (qry_gid, ref_gid, ref_hit))
                (sort_key summary_key ref_hits)"
  have inner: "sorted_wrt item_before (?g qh)" if "qh \<in> set results" for qh
  proof -
    obtain q hits where qh: "qh = (q, hits)" by (cases qh)
    with assms(2) that have "distinct (map fst hits)" by auto
    then have "sorted_wrt (\<lambda>x y. summary_key x < summary_key y) (sort_key summary_key hits)"
      by (intro sort_key_strict distinct_summary_key)
    then have "sorted_wrt (\<lambda>x y. item_before (q, x) (q, y)) (sort_key summary_key hits)"
      by (simp add: item_before_def)
    then show ?thesis
      by (simp add: qh sorted_wrt_map case_prod_beta)
  qed
  have "sorted_wrt (\<lambda>a b. fst a < fst b) (sort_key fst results)"
    by (rule sort_key_strict [OF assms(1)])
  then have outer: "sorted_wrt (\<lambda>a b. \<forall>x \<in> set (?g a). \<forall>y \<in> set (?g b). item_before x y)
      (sort_key fst results)"
    by (rule sorted_wrt_mono_rel [rotated]) (auto simp: item_before_def)
  show ?thesis
    unfolding summary_items_def sorted_wrt_concat
    using inner outer by (simp add: sorted_wrt_map)
qed

lemma write_rows_sorted:
  assumes "write_rows f xs = Inr rows" and "sorted_wrt P xs"
    and "\<And>x y r s. f x = Inr r \<Longrightarrow> f y = Inr s \<Longrightarrow> P x y \<Longrightarrow> Q r s"
  shows "sorted_wrt Q rows"
proof -
  have len: "length rows = length xs" by (rule write_rows_nth(1) [OF assms(1)])
  show ?thesis
    unfolding sorted_wrt_iff_nth_less
  proof (intro allI impI)
    fix i j
    assume ij: "i < j" "j < length rows"
    then have "f (xs ! i) = Inr (rows ! i)" "f (xs ! j) = Inr (rows ! j)"
      using write_rows_nth(2) [OF assms(1)] len by simp_all
    moreover from ij len assms(2) have "P (xs ! i) (xs ! j)"
      by (simp add: sorted_wrt_iff_nth_less)
    ultimately show "Q (rows ! i) (rows ! j)" by (rule assms(3))
  qed
qed

lemma summary_row_before:
  assumes "summary_row canonical_gid taxonomy x = Inr r"
    and "summary_row canonical_gid taxonomy y = Inr s"
    and "item_before x y"
  shows "summary_before r s"
proof -
  obtain q1 g1 h1 where x: "x = (q1, g1, h1)" by (cases x)
  obtain q2 g2 h2 where y: "y = (q2, g2, h2)" by (cases y)
  from assms(1) x obtain t1 where r: "r = [Text q1, Text g1, Float (ani h1), Float (af h1), Text t1]"
    by (auto simp: summary_row_def split: sum.splits)
  from assms(2) y obtain t2 where s: "s = [Text q2, Text g2, Float (ani h2), Float (af h2), Text t2]"
    by (auto simp: summary_row_def split: sum.splits)
  from assms(3) show ?thesis
    unfolding r s summary_before_def item_before_def x y summary_key_def
    by (auto simp: less_prod_def)
qed

text \<open>
  Claim C4. The data rows of a summary report that was written are strictly ordered: by
  ascending query id, and for one query by descending alignment fraction, then descending
  ANI, then ascending reference id. The keys of the similarity table, and of the hits of each
  query, are pairwise distinct, as the keys of a dictionary are.
\<close>

theorem summary_rows_ordered:
  assumes "ANISummaryFile_write canonical_gid results taxonomy = Inr out"
    and "distinct (map fst results)"
    and "\<forall>qh \<in> set results. distinct (map fst (snd qh))"
  shows "sorted_wrt summary_before (tl out)"
proof -
  from assms(1) obtain rows where out: "out = summary_header # rows"
    and rows: "write_rows (summary_row canonical_gid taxonomy) (summary_items results) = Inr rows"
    by (cases "write_rows (summary_row canonical_gid taxonomy) (summary_items results)")
      (auto simp: ANISummaryFile_write_def)
  have "sorted_wrt summary_before rows"
    using rows sorted_summary_items [OF assms(2,3)]
    by (rule write_rows_sorted) (rule summary_row_before)
  then show ?thesis by (simp add: out)
qed

theorem summary_rows_ordered_witness:
  "ANISummaryFile_write id
     [(''q2'', [(''r1'', \<lparr>ani = 98, af = 0.9\<rparr>), (''r2'', \<lparr>ani = 99, af = 0.5\<rparr>)]),
      (''q1'', [(''r3'', \<lparr>ani = 98, af = 0.9\<rparr>), (''r2'', \<lparr>ani = 98, af = 0.9\<rparr>),
                (''r4'', \<lparr>ani = 99, af = 0.9\<rparr>)])]
     (map_of [(''r1'', [''d__B'', ''s__1'']), (''r2'', [''d__B'', ''s__2'']),
              (''r3'', [''d__B'', ''s__3'']), (''r4'', [''d__B'', ''s__4''])])
   = Inr [summary_header,
          [Text ''q1'', Text ''r4'', Float 99, Float 0.9, Text ''d__B;s__4''],
          [Text ''q1'', Text ''r2'', Float 98, Float 0.9, Text ''d__B;s__2''],
          [Text ''q1'', Text ''r3'', Float 98, Float 0.9, Text ''d__B;s__3''],
          [Text ''q2'', Text ''r1'', Float 98, Float 0.9, Text ''d__B;s__1''],
          [Text ''q2'', Text ''r2'', Float 99, Float 0.5, Text ''d__B;s__2'']]
   \<and> distinct (map fst
        [(''q2'', [(''r1'', \<lparr>ani = 98, af = 0.9\<rparr>), (''r2'', \<lparr>ani = 99, af = 0.5\<rparr>)]),
         (''q1'', [(''r3'', \<lparr>ani = 98, af = 0.9\<rparr>), (''r2'', \<lparr>ani = 98, af = 0.9\<rparr>),
                (''r4'', \<lparr>ani = 99, af = 0.9\<rparr>)])])
   \<and> distinct (map fst [(''r1'', \<lparr>ani = 98, af = 0.9\<rparr>), (''r2'', \<lparr>ani = 99, af = 0.5\<rparr>)])
   \<and> distinct (map fst [(''r3'', \<lparr>ani = 98, af = 0.9\<rparr>), (''r2'', \<lparr>ani = 98, af = 0.9\<rparr>),
                (''r4'', \<lparr>ani = 99, af = 0.9\<rparr>)])
   \<and> sorted_wrt summary_before
         [[Text ''q1'', Text ''r4'', Float 99, Float 0.9, Text ''d__B;s__4''],
          [Text ''q1'', Text ''r2'', Float 98, Float 0.9, Text ''d__B;s__2''],
          [Text ''q1'', Text ''r3'', Float 98, Float 0.9, Text ''d__B;s__3''],
          [Text ''q2'', Text ''r1'', Float 98, Float 0.9, Text ''d__B;s__1''],
          [Text ''q2'', Text ''r2'', Float 99, Float 0.5, Text ''d__B;s__2'']]"
proof -
  have h1: "ANISummaryFile_write id
     [(''q2'', [(''r1'', \<lparr>ani = 98, af = 0.9\<rparr>), (''r2'', \<lparr>ani = 99, af = 0.5\<rparr>)]),
      (''q1'', [(''r3'', \<lparr>ani = 98, af = 0.9\<rparr>), (''r2'', \<lparr>ani = 98, af = 0.9\<rparr>),
                (''r4'', \<lparr>ani = 99, af = 0.9\<rparr>)])]
     (map_of [(''r1'', [''d__B'', ''s__1'']), (''r2'', [''d__B'', ''s__2'']),
              (''r3'', [''d__B'', ''s__3'']), (''r4'', [''d__B'', ''s__4''])])
   = Inr [summary_header,
          [Text ''q1'', Text ''r4'', Float 99, Float 0.9, Text ''d__B;s__4''],
          [Text ''q1'', Text ''r2'', Float 98, Float 0.9, Text ''d__B;s__2''],
          [Text ''q1'', Text ''r3'', Float 98, Float 0.9, Text ''d__B;s__3''],
          [Text ''q2'', Text ''r1'', Float 98, Float 0.9, Text ''d__B;s__1''],
          [Text ''q2'', Text ''r2'', Float 99, Float 0.5, Text ''d__B;s__2'']]"
    by (simp add: summary_eval)
  have h2: "distinct (map fst
        [(''q2'', [(''r1'', \<lparr>ani = 98, af = 0.9\<rparr>), (''r2'', \<lparr>ani = 99, af = 0.5\<rparr>)]),
         (''q1'', [(''r3'', \<lparr>ani = 98, af = 0.9\<rparr>), (''r2'', \<lparr>ani = 98, af = 0.9\<rparr>),
                (''r4'', \<lparr>ani = 99, af = 0.9\<rparr>)])])"
    by simp
  have h3: "\<forall>qh \<in> set
        [(''q2'', [(''r1'', \<lparr>ani = 98, af = 0.9\<rparr>), (''r2'', \<lparr>ani = 99, af = 0.5\<rparr>)]),
         (''q1'', [(''r3'', \<lparr>ani = 98, af = 0.9\<rparr>), (''r2'', \<lparr>ani = 98, af = 0.9\<rparr>),
                (''r4'', \<lparr>ani = 99, af = 0.9\<rparr>)])]. distinct (map fst (snd qh))"
    by simp
  from summary_rows_ordered [OF h1 h2 h3] h1 h2 h3 show ?thesis by simp
qed

section \<open>Taxonomy lookups\<close>

lemma closest_row_error:
  "closest_row canonical_gid AF_THRESHOLD results min_af taxonomy gtdb_radii gid = Inl e
   \<Longrightarrow> e = KeyError"
proof (cases "map_of results gid")
  case None
  then show "closest_row canonical_gid AF_THRESHOLD results min_af taxonomy gtdb_radii gid
      = Inl e \<Longrightarrow> e = KeyError"
    by (simp add: closest_row_def)
next
  case (Some ref_hits)
  then show "closest_row canonical_gid AF_THRESHOLD results min_af taxonomy gtdb_radii gid
      = Inl e \<Longrightarrow> e = KeyError"
    by (cases "closest min_af ref_hits")
      (simp_all add: closest_row_def taxonomy_str_def get_rep_ani_def split: option.splits)
qed

lemma summary_row_error:
  "summary_row canonical_gid taxonomy item = Inl e \<Longrightarrow> e = KeyError"
  by (cases item) (simp add: summary_row_def taxonomy_str_def split: option.splits)

lemma set_summary_items:
  "set (summary_items results) =
     {(q, r, h). \<exists>ref_hits. (q, ref_hits) \<in> set results \<and> (r, h) \<in> set ref_hits}"
  by (auto simp: summary_items_def)

lemma summary_write_raises:
  assumes "(qry_gid, ref_hits) \<in> set results" and "(ref_gid, ref_hit) \<in> set ref_hits"
    and "taxonomy (canonical_gid ref_gid) = None"
  shows "ANISummaryFile_write canonical_gid results taxonomy = Inl KeyError"
proof -
  from assms(1,2) have mem: "(qry_gid, ref_gid, ref_hit) \<in> set (summary_items results)"
    by (auto simp: set_summary_items)
  from assms(3)
  have miss: "summary_row canonical_gid taxonomy (qry_gid, ref_gid, ref_hit) = Inl KeyError"
    by (simp add: summary_row_def taxonomy_str_def)
  from write_rows_raises [of _ _ "summary_row canonical_gid taxonomy", OF mem miss] obtain e where
    e: "write_rows (summary_row canonical_gid taxonomy) (summary_items results) = Inl e" ..
  from write_rows_Inl [OF e] obtain x where "summary_row canonical_gid taxonomy x = Inl e" ..
  then have "e = KeyError" by (rule summary_row_error)
  with e show ?thesis by (simp add: ANISummaryFile_write_def)
qed

lemma closest_write_raises:
  assumes "gid \<in> fst ` set genomes" and "map_of results gid = Some ref_hits"
    and "closest min_af ref_hits = c # cs" and "taxonomy (canonical_gid (fst c)) = None"
  shows "ANIClosestFile_write canonical_gid AF_THRESHOLD results genomes min_af taxonomy
           gtdb_radii = Inl KeyError"
proof -
  from assms(1) have mem: "gid \<in> set (sort (map fst genomes))" by simp
  from assms(2-4)
  have miss: "closest_row canonical_gid AF_THRESHOLD results min_af taxonomy gtdb_radii gid
          = Inl KeyError"
    by (simp add: closest_row_def taxonomy_str_def)
  from write_rows_raises
    [of _ _ "closest_row canonical_gid AF_THRESHOLD results min_af taxonomy gtdb_radii",
      OF mem miss]
  obtain e where
    e: "write_rows (closest_row canonical_gid AF_THRESHOLD results min_af taxonomy gtdb_radii)
          (sort (map fst genomes)) = Inl e" ..
  from write_rows_Inl [OF e] obtain x where
    "closest_row canonical_gid AF_THRESHOLD results min_af taxonomy gtdb_radii x = Inl e" ..
  then have "e = KeyError" by (rule closest_row_error)
  with e show ?thesis by (simp add: ANIClosestFile_write_def)
qed

text \<open>
  Claim C8, as the code has it. The summary writer raises \<^verbatim>\<open>KeyError\<close> for every similarity
  table that holds a reference id whose canonical form is no key of the taxonomy. The
  closest-match writer raises \<^verbatim>\<open>KeyError\<close> whenever the winning hit of a query genome has such
  a reference id; it looks up no other reference.
\<close>

theorem taxonomy_miss_fatal:
  "((qry_gid, ref_hits) \<in> set results \<and> (ref_gid, ref_hit) \<in> set ref_hits
      \<and> taxonomy (canonical_gid ref_gid) = None
    \<longrightarrow> ANISummaryFile_write canonical_gid results taxonomy = Inl KeyError)
   \<and> (gid \<in> fst ` set genomes \<and> map_of results gid = Some hits
      \<and> closest min_af hits = c # cs \<and> taxonomy (canonical_gid (fst c)) = None
    \<longrightarrow> ANIClosestFile_write canonical_gid AF_THRESHOLD results genomes min_af taxonomy
          gtdb_radii = Inl KeyError)"
proof (intro conjI impI)
  assume "(qry_gid, ref_hits) \<in> set results \<and> (ref_gid, ref_hit) \<in> set ref_hits
      \<and> taxonomy (canonical_gid ref_gid) = None"
  then show "ANISummaryFile_write canonical_gid results taxonomy = Inl KeyError"
    using summary_write_raises by blast
next
  assume "gid \<in> fst ` set genomes \<and> map_of results gid = Some hits
      \<and> closest min_af hits = c # cs \<and> taxonomy (canonical_gid (fst c)) = None"
  then show "ANIClosestFile_write canonical_gid AF_THRESHOLD results genomes min_af taxonomy
          gtdb_radii = Inl KeyError"
    using closest_write_raises by blast
qed

theorem taxonomy_miss_fatal_witness:
  "(''q1'', [(''r1'', \<lparr>ani = 99, af = 0.9\<rparr>), (''r2'', \<lparr>ani = 90, af = 0.9\<rparr>)])
      \<in> set [(''q1'', [(''r1'', \<lparr>ani = 99, af = 0.9\<rparr>), (''r2'', \<lparr>ani = 90, af = 0.9\<rparr>)])]
   \<and> (''r2'', \<lparr>ani = 90, af = 0.9\<rparr>)
      \<in> set [(''r1'', \<lparr>ani = 99, af = 0.9\<rparr>), (''r2'', \<lparr>ani = 90, af = 0.9\<rparr>)]
   \<and> map_of [(''r2'', [''d__Bacteria'', ''s__Escherichia coli''])] (id ''r1'') = None
   \<and> ''q1'' \<in> fst ` set [(''q1'', ''q1.fna'')]
   \<and> closest 0.5 [(''r1'', \<lparr>ani = 99, af = 0.9\<rparr>), (''r2'', \<lparr>ani = 90, af = 0.9\<rparr>)]
       = [(''r1'', \<lparr>ani = 99, af = 0.9\<rparr>), (''r2'', \<lparr>ani = 90, af = 0.9\<rparr>)]
   \<and> ANISummaryFile_write id
        [(''q1'', [(''r1'', \<lparr>ani = 99, af = 0.9\<rparr>), (''r2'', \<lparr>ani = 90, af = 0.9\<rparr>)])]
        (map_of [(''r2'', [''d__Bacteria'', ''s__Escherichia coli''])])
      = Inl KeyError
   \<and> ANIClosestFile_write id 0.65
        [(''q1'', [(''r1'', \<lparr>ani = 99, af = 0.9\<rparr>), (''r2'', \<lparr>ani = 90, af = 0.9\<rparr>)])]
        [(''q1'', ''q1.fna'')] 0.5
        (map_of [(''r2'', [''d__Bacteria'', ''s__Escherichia coli''])])
        (map_of [(''r1'', 95)])
      = Inl KeyError"
proof -
  have c: "closest 0.5 [(''r1'', \<lparr>ani = 99, af = 0.9\<rparr>), (''r2'', \<lparr>ani = 90, af = 0.9\<rparr>)]
       = [(''r1'', \<lparr>ani = 99, af = 0.9\<rparr>), (''r2'', \<lparr>ani = 90, af = 0.9\<rparr>)]"
    by (simp add: closest_eval)
  from taxonomy_miss_fatal
    [of "''q1''" "[(''r1'', \<lparr>ani = 99, af = 0.9\<rparr>), (''r2'', \<lparr>ani = 90, af = 0.9\<rparr>)]"
      "[(''q1'', [(''r1'', \<lparr>ani = 99, af = 0.9\<rparr>), (''r2'', \<lparr>ani = 90, af = 0.9\<rparr>)])]"
      "''r1''" "\<lparr>ani = 99, af = 0.9\<rparr>"
      "map_of [(''r2'', [''d__Bacteria'', ''s__Escherichia coli''])]" id
      "''q1''" "[(''q1'', ''q1.fna'')]"
      "[(''r1'', \<lparr>ani = 99, af = 0.9\<rparr>), (''r2'', \<lparr>ani = 90, af = 0.9\<rparr>)]"
      "0.5" "(''r1'', \<lparr>ani = 99, af = 0.9\<rparr>)" "[(''r2'', \<lparr>ani = 90, af = 0.9\<rparr>)]"
      "0.65" "map_of [(''r1'', 95)]"] c
  show ?thesis by simp
qed

text \<open>
  A similarity table with a reference id that is no key of the taxonomy, but wins for no
  query: the summary writer raises, the closest-match writer writes its report.
\<close>

theorem taxonomy_miss_closest_counterexample:
  "map_of [(''r1'', [''d__Bacteria'', ''s__Escherichia coli''])] (id ''r2'') = None
   \<and> ANISummaryFile_write id
        [(''q1'', [(''r1'', \<lparr>ani = 99, af = 0.9\<rparr>), (''r2'', \<lparr>ani = 90, af = 0.9\<rparr>)])]
        (map_of [(''r1'', [''d__Bacteria'', ''s__Escherichia coli''])])
      = Inl KeyError
   \<and> ANIClosestFile_write id 0.65
        [(''q1'', [(''r1'', \<lparr>ani = 99, af = 0.9\<rparr>), (''r2'', \<lparr>ani = 90, af = 0.9\<rparr>)])]
        [(''q1'', ''q1.fna'')] 0.5
        (map_of [(''r1'', [''d__Bacteria'', ''s__Escherichia coli''])])
        (map_of [(''r1'', 95)])
      = Inr [closest_header,
             [Text ''q1'', Text ''r1'', Float 99, Float 0.9,
              Text ''d__Bacteria;s__Escherichia coli'', Flag True]]"
  by (simp add: closest_eval summary_eval)

end
